theory Spec2Isabelle
  imports Main "HOL-Library.Product_Lexorder"
begin

section \<open>Calendar values\<close>

text \<open>
  The values handled by \<^verbatim>\<open>src/date_parser.py\<close> are \<^verbatim>\<open>datetime.datetime\<close> objects of
  the Python standard library. The record below is a naive datetime (without time zone),
  which is what a date phrase without a zone is read as: its seven fields. Equality and
  hashing of naive datetimes are field-wise, and their ordering is the lexicographic
  order of the fields. The comparison functions of the next section are stated on naive
  datetimes; the zone-aware datetimes that the reading of a date phrase can also return
  come with the extraction functions.
\<close>

record datetime =
  year :: int
  month :: int
  day :: int
  hour :: int
  minute :: int
  second :: int
  microsecond :: int

definition mk_date :: "int \<Rightarrow> int \<Rightarrow> int \<Rightarrow> datetime" where
  "mk_date y m d =
     \<lparr>year = y, month = m, day = d, hour = 0, minute = 0, second = 0, microsecond = 0\<rparr>"

definition dt_key :: "datetime \<Rightarrow> int \<times> int \<times> int \<times> int \<times> int \<times> int \<times> int" where
  "dt_key d = (year d, month d, day d, hour d, minute d, second d, microsecond d)"

text \<open>\<^verbatim>\<open>datetime.date()\<close>: the calendar day of a datetime.\<close>

definition date_of :: "datetime \<Rightarrow> int \<times> int \<times> int" where
  "date_of d = (year d, month d, day d)"

text \<open>
  Subtraction of datetimes follows the standard library: the operands are turned into a
  proleptic Gregorian ordinal plus a time of day, and the resulting \<^verbatim>\<open>timedelta\<close> is
  normalised so that \<^verbatim>\<open>0 <= seconds < 86400\<close>; its \<^verbatim>\<open>days\<close> attribute is therefore the
  floor of the difference measured in days.
\<close>

definition is_leap :: "int \<Rightarrow> bool" where
  "is_leap y = (y mod 4 = 0 \<and> (y mod 100 \<noteq> 0 \<or> y mod 400 = 0))"

definition days_before_year :: "int \<Rightarrow> int" where
  "days_before_year y = (y - 1) * 365 + (y - 1) div 4 - (y - 1) div 100 + (y - 1) div 400"

definition days_in_month :: "int \<Rightarrow> int \<Rightarrow> int" where
  "days_in_month y m =
     (if m = 2 then (if is_leap y then 29 else 28)
      else if m = 4 \<or> m = 6 \<or> m = 9 \<or> m = 11 then 30 else 31)"

definition days_before_month :: "int \<Rightarrow> int \<Rightarrow> int" where
  "days_before_month y m =
     (if m = 1 then 0 else if m = 2 then 31 else if m = 3 then 59 else if m = 4 then 90
      else if m = 5 then 120 else if m = 6 then 151 else if m = 7 then 181
      else if m = 8 then 212 else if m = 9 then 243 else if m = 10 then 273
      else if m = 11 then 304 else 334)
     + (if 2 < m \<and> is_leap y then 1 else 0)"

definition toordinal :: "datetime \<Rightarrow> int" where
  "toordinal d = days_before_year (year d) + days_before_month (year d) (month d) + day d"

definition microseconds_of :: "datetime \<Rightarrow> int" where
  "microseconds_of d =
     ((toordinal d * 86400 + hour d * 3600 + minute d * 60 + second d) * 1000000
      + microsecond d)"

text \<open>\<^verbatim>\<open>(a - b).days\<close>\<close>

definition sub_days :: "datetime \<Rightarrow> datetime \<Rightarrow> int" where
  "sub_days a b = (microseconds_of a - microseconds_of b) div 86400000000"

section \<open>Date comparison, sequences and mismatches\<close>

text \<open>\<^verbatim>\<open>DateParser.compare_dates\<close>\<close>

definition compare_dates :: "datetime \<Rightarrow> datetime \<Rightarrow> int \<Rightarrow> bool" where
  "compare_dates date1 date2 tolerance_days =
     (if tolerance_days = 0 then date_of date1 = date_of date2
      else \<bar>sub_days date1 date2\<bar> \<le> tolerance_days)"

text \<open>
  \<^verbatim>\<open>DateParser.format_date\<close> with its default format \<^verbatim>\<open>'uk'\<close>, that is
  \<^verbatim>\<open>strftime('%d/%m/%Y')\<close>: day and month padded to two digits, the year in decimal.
\<close>

definition digit_char :: "nat \<Rightarrow> char" where
  "digit_char n = char_of (48 + n)"

fun decimal :: "nat \<Rightarrow> string" where
  "decimal n = (if n < 10 then [digit_char n] else decimal (n div 10) @ [digit_char (n mod 10)])"

declare decimal.simps [simp del]

definition pad2 :: "int \<Rightarrow> string" where
  "pad2 n = (if n < 10 then CHR ''0'' # decimal (nat n) else decimal (nat n))"

definition format_date :: "datetime \<Rightarrow> string" where
  "format_date d = pad2 (day d) @ ''/'' @ pad2 (month d) @ ''/'' @ decimal (nat (year d))"

record mismatch =
  expected :: datetime
  found :: datetime
  difference_days :: int
  expected_str :: string
  found_str :: string

text \<open>The dictionary appended by \<^verbatim>\<open>find_date_mismatches\<close> for one found date.\<close>

definition discrepancy :: "datetime \<Rightarrow> datetime \<Rightarrow> mismatch" where
  "discrepancy expected_date found_date =
     \<lparr>expected = expected_date, found = found_date,
      difference_days = sub_days found_date expected_date,
      expected_str = format_date expected_date,
      found_str = format_date found_date\<rparr>"

text \<open>\<^verbatim>\<open>DateParser.find_date_mismatches\<close>: the loop over \<^verbatim>\<open>found_dates\<close>.\<close>

fun find_date_mismatches :: "datetime \<Rightarrow> datetime list \<Rightarrow> int \<Rightarrow> mismatch list" where
  "find_date_mismatches expected_date [] tolerance_days = []"
| "find_date_mismatches expected_date (found_date # rest) tolerance_days =
     (if \<not> compare_dates expected_date found_date tolerance_days
      then discrepancy expected_date found_date
           # find_date_mismatches expected_date rest tolerance_days
      else find_date_mismatches expected_date rest tolerance_days)"


section \<open>Text and regular expressions\<close>

text \<open>
  Text is a \<^typ>\<open>string\<close>: a list of 8-bit characters, read as the code points U+0000 to
  U+00FF of a Python \<^verbatim>\<open>str\<close>. The character classes below are those of Python's
  \<^verbatim>\<open>re\<close> module for \<^verbatim>\<open>str\<close> patterns on this range.
\<close>

definition code_point :: "char \<Rightarrow> nat" where
  "code_point c = of_char c"

text \<open>\<^verbatim>\<open>\d\<close>\<close>

definition is_digit :: "char \<Rightarrow> bool" where
  "is_digit c = (48 \<le> code_point c \<and> code_point c \<le> 57)"

text \<open>\<^verbatim>\<open>\s\<close>, which is also what \<^verbatim>\<open>str.strip()\<close> removes.\<close>

definition is_space :: "char \<Rightarrow> bool" where
  "is_space c =
     (let n = code_point c
      in (9 \<le> n \<and> n \<le> 13) \<or> (28 \<le> n \<and> n \<le> 32) \<or> n = 133 \<or> n = 160)"

text \<open>\<^verbatim>\<open>\w\<close>: alphanumeric characters and the underscore.\<close>

definition is_word :: "char \<Rightarrow> bool" where
  "is_word c =
     (let n = code_point c
      in (48 \<le> n \<and> n \<le> 57) \<or> (65 \<le> n \<and> n \<le> 90) \<or> n = 95 \<or> (97 \<le> n \<and> n \<le> 122)
         \<or> n = 170 \<or> n = 178 \<or> n = 179 \<or> n = 181 \<or> n = 185 \<or> n = 186
         \<or> (188 \<le> n \<and> n \<le> 190) \<or> (192 \<le> n \<and> n \<le> 214) \<or> (216 \<le> n \<and> n \<le> 246)
         \<or> 248 \<le> n)"

definition lower_ascii :: "char \<Rightarrow> char" where
  "lower_ascii c =
     (if 65 \<le> code_point c \<and> code_point c \<le> 90 then char_of (code_point c + 32) else c)"

text \<open>A pattern character under \<^verbatim>\<open>re.IGNORECASE\<close>.\<close>

definition ci :: "char \<Rightarrow> char \<Rightarrow> bool" where
  "ci p c = (lower_ascii c = lower_ascii p)"

text \<open>\<^verbatim>\<open>[/-]\<close>, \<^verbatim>\<open>[:\s]\<close>, \<^verbatim>\<open>[^\n]\<close> and \<^verbatim>\<open>[^\s]\<close>\<close>

definition is_sep :: "char \<Rightarrow> bool" where
  "is_sep c = (c = CHR ''/'' \<or> c = CHR ''-'')"

definition colon_or_space :: "char \<Rightarrow> bool" where
  "colon_or_space c = (c = CHR '':'' \<or> is_space c)"

definition not_newline :: "char \<Rightarrow> bool" where
  "not_newline c = (code_point c \<noteq> 10)"

definition not_space :: "char \<Rightarrow> bool" where
  "not_space c = (\<not> is_space c)"

definition strip :: "string \<Rightarrow> string" where
  "strip s = rev (dropWhile is_space (rev (dropWhile is_space s)))"

text \<open>
  The fragment of regular-expression syntax that the patterns of the source use: a
  character class, a greedy repetition of a class between a lower and an optional upper
  bound, concatenation, ordered alternation, the empty pattern, the word boundary
  \<^verbatim>\<open>\b\<close> and a numbered capturing group.
\<close>

datatype re =
    Cls "char \<Rightarrow> bool"
  | Rpt "char \<Rightarrow> bool" nat "nat option"
  | Cat re re
  | Alt re re
  | Eps
  | WordB
  | Grp nat re

text \<open>
  A matcher state is the character before the current position (none at the start of the
  text), the text still to be read, and the groups captured so far, latest first.
\<close>

type_synonym mstate = "char option \<times> string \<times> (nat \<times> string) list"

text \<open>
  Matching is by backtracking with a continuation, in the priority order of Python's
  engine: a repetition takes as many characters as it can and gives them back one at a
  time, an alternation tries its left branch first.
\<close>

fun rep_greedy ::
  "(char \<Rightarrow> bool) \<Rightarrow> nat \<Rightarrow> nat option \<Rightarrow> nat \<Rightarrow> mstate \<Rightarrow> (mstate \<Rightarrow> mstate option)
   \<Rightarrow> mstate option" where
  "rep_greedy p lo hi n (prev, [], g) k = (if lo \<le> n then k (prev, [], g) else None)"
| "rep_greedy p lo hi n (prev, c # cs, g) k =
     (if p c \<and> (case hi of None \<Rightarrow> True | Some h \<Rightarrow> n < h)
      then (case rep_greedy p lo hi (Suc n) (Some c, cs, g) k of
              Some r \<Rightarrow> Some r
            | None \<Rightarrow> if lo \<le> n then k (prev, c # cs, g) else None)
      else if lo \<le> n then k (prev, c # cs, g) else None)"

definition word_before :: "char option \<Rightarrow> bool" where
  "word_before prev = (case prev of None \<Rightarrow> False | Some c \<Rightarrow> is_word c)"

definition word_after :: "string \<Rightarrow> bool" where
  "word_after s = (case s of [] \<Rightarrow> False | c # _ \<Rightarrow> is_word c)"

fun re_match :: "re \<Rightarrow> mstate \<Rightarrow> (mstate \<Rightarrow> mstate option) \<Rightarrow> mstate option" where
  "re_match (Cls p) (prev, s, g) k =
     (case s of [] \<Rightarrow> None | c # cs \<Rightarrow> if p c then k (Some c, cs, g) else None)"
| "re_match (Rpt p lo hi) st k = rep_greedy p lo hi 0 st k"
| "re_match (Cat a b) st k = re_match a st (\<lambda>st'. re_match b st' k)"
| "re_match (Alt a b) st k =
     (case re_match a st k of Some r \<Rightarrow> Some r | None \<Rightarrow> re_match b st k)"
| "re_match Eps st k = k st"
| "re_match WordB (prev, s, g) k =
     (if word_before prev \<noteq> word_after s then k (prev, s, g) else None)"
| "re_match (Grp n a) (prev, s, g) k =
     re_match a (prev, s, g)
       (\<lambda>(prev', s', g'). k (prev', s', (n, take (length s - length s') s) # g'))"

text \<open>
  \<^verbatim>\<open>re.finditer\<close>: the non-overlapping matches from left to right, each as its whole
  text (group 0) and its captured groups. The search resumes where a match ended; where
  nothing matches it moves on by one character. (No pattern of the source matches the
  empty string; an empty match is reported and the search moves on by one character.)
\<close>

function finditer :: "re \<Rightarrow> char option \<Rightarrow> string \<Rightarrow> (string \<times> (nat \<times> string) list) list" where
  "finditer r prev s =
     (case re_match r (prev, s, []) Some of
        Some (prev', s', g) \<Rightarrow>
          if length s' < length s
          then (take (length s - length s') s, g) # finditer r prev' s'
          else (case s of [] \<Rightarrow> [([], g)] | c # cs \<Rightarrow> ([], g) # finditer r (Some c) cs)
      | None \<Rightarrow> (case s of [] \<Rightarrow> [] | c # cs \<Rightarrow> finditer r (Some c) cs))"
  by pat_completeness auto
termination
  by (relation "measure (\<lambda>(r, prev, s). length s)") auto

declare finditer.simps [simp del]

text \<open>\<^verbatim>\<open>match.group(n)\<close> for \<open>n > 0\<close>\<close>

definition group :: "(nat \<times> string) list \<Rightarrow> nat \<Rightarrow> string option" where
  "group g n = map_of g n"

subsection \<open>The patterns of the source\<close>

definition lit :: "string \<Rightarrow> re" where
  "lit s = foldr (\<lambda>c r. Cat (Cls (ci c)) r) s Eps"

definition seq :: "re list \<Rightarrow> re" where
  "seq rs = foldr Cat rs Eps"

fun alts :: "re list \<Rightarrow> re" where
  "alts [] = Eps"
| "alts [r] = r"
| "alts (r # rs) = Alt r (alts rs)"

definition opt :: "re \<Rightarrow> re" where
  "opt r = Alt r Eps"

definition month_name :: re where
  "month_name = alts (map lit [''January'', ''February'', ''March'', ''April'', ''May'',
     ''June'', ''July'', ''August'', ''September'', ''October'', ''November'', ''December''])"

definition digits :: "nat \<Rightarrow> nat \<Rightarrow> re" where
  "digits lo hi = Rpt is_digit lo (Some hi)"

definition spaces1 :: re where
  "spaces1 = Rpt is_space 1 None"

definition DATE_PATTERNS :: "re list" where
  "DATE_PATTERNS =
     [seq [WordB, Grp 1 (digits 1 2), Cls is_sep, Grp 2 (digits 1 2), Cls is_sep,
           Grp 3 (digits 4 4), WordB],
      seq [WordB, Grp 1 (digits 1 2), spaces1, Grp 2 month_name, spaces1,
           Grp 3 (digits 4 4), WordB],
      seq [WordB, Grp 1 month_name, spaces1, Grp 2 (digits 1 2), opt (Cls (\<lambda>c. c = CHR '','')),
           spaces1, Grp 3 (digits 4 4), WordB],
      seq [WordB, Grp 1 (digits 1 2), Cls is_sep, Grp 2 (digits 1 2), Cls is_sep,
           Grp 3 (digits 2 2), WordB]]"

text \<open>The common tail \<^verbatim>\<open>[:\s]+([^\n]{5,30})\<close> of every context pattern.\<close>

definition captured_phrase :: re where
  "captured_phrase = Cat (Rpt colon_or_space 1 None) (Grp 1 (Rpt not_newline 5 (Some 30)))"

definition CONTEXT_PATTERNS :: "string \<Rightarrow> re list option" where
  "CONTEXT_PATTERNS = map_of
     [(''incorporation'',
        [Cat (lit ''date of incorporation'') captured_phrase,
         Cat (lit ''incorporated on'') captured_phrase,
         Cat (lit ''incorporation date'') captured_phrase]),
      (''name_change'',
        [Cat (lit ''date of change'') captured_phrase,
         seq [lit ''changed '', opt (lit ''its name ''), lit ''on'', captured_phrase],
         seq [lit ''effective '', Alt (lit ''date'') (lit ''from''), captured_phrase]]),
      (''registration'',
        [Cat (lit ''date of registration'') captured_phrase,
         Cat (lit ''registered on'') captured_phrase]),
      (''filing'',
        [Cat (lit ''filed on'') captured_phrase,
         Cat (lit ''filing date'') captured_phrase])]"

text \<open>\<^verbatim>\<open>from\s+([^\s]+(?:\s+\w+\s+\d{4})?)\s+to\s+([^\s]+(?:\s+\w+\s+\d{4})?)\<close>\<close>

definition range_end :: re where
  "range_end =
     Cat (Rpt not_space 1 None) (opt (seq [spaces1, Rpt is_word 1 None, spaces1, digits 4 4]))"

definition RANGE_PATTERN :: re where
  "RANGE_PATTERN =
     seq [lit ''from'', spaces1, Grp 1 range_end, spaces1, lit ''to'', spaces1, Grp 2 range_end]"

section \<open>Date extraction\<close>

text \<open>
  The source delegates the reading of a date phrase to the third-party library
  \<^verbatim>\<open>dateparser\<close>. The call \<^verbatim>\<open>dateparser.parse(date_string, settings={...})\<close> with the
  fixed settings of the source is a parameter of the model: it raises (an exception
  derived from \<^verbatim>\<open>Exception\<close>), or returns \<^verbatim>\<open>None\<close>, or returns a datetime.

  The datetime it returns is naive for a phrase without a time zone and zone-aware for a
  phrase that names one (\<^verbatim>\<open>10:30 UTC\<close>). A zone-aware datetime is its local fields
  together with its offset from UTC in microseconds.
\<close>

datatype py_exception = PyException string

datatype py_datetime = Naive datetime | Aware datetime int

fun local_fields :: "py_datetime \<Rightarrow> datetime" where
  "local_fields (Naive d) = d"
| "local_fields (Aware d off) = d"

fun is_aware :: "py_datetime \<Rightarrow> bool" where
  "is_aware (Naive d) = False"
| "is_aware (Aware d off) = True"

text \<open>The point in time of a zone-aware datetime, in microseconds.\<close>

fun instant :: "py_datetime \<Rightarrow> int" where
  "instant (Naive d) = microseconds_of d"
| "instant (Aware d off) = microseconds_of d - off"

text \<open>
  \<^verbatim>\<open>a == b\<close> on datetimes, with which \<^verbatim>\<open>hash\<close> agrees: two naive datetimes are equal
  when their fields are, two zone-aware ones when they are the same point in time, and a
  naive and a zone-aware one are never equal.
\<close>

fun py_eq :: "py_datetime \<Rightarrow> py_datetime \<Rightarrow> bool" where
  "py_eq (Naive a) (Naive b) = (a = b)"
| "py_eq (Aware a oa) (Aware b ob) = (instant (Aware a oa) = instant (Aware b ob))"
| "py_eq (Naive a) (Aware b ob) = False"
| "py_eq (Aware a oa) (Naive b) = False"

text \<open>
  The elements of \<^verbatim>\<open>set(dates)\<close>: of several equal datetimes a set keeps the one that
  was added first.
\<close>

fun py_unique :: "py_datetime list \<Rightarrow> py_datetime list" where
  "py_unique [] = []"
| "py_unique (x # xs) = x # py_unique (filter (\<lambda>y. \<not> py_eq x y) xs)"

text \<open>
  \<^verbatim>\<open>list.sort()\<close> on datetimes without equal elements. Ordering a naive against a
  zone-aware datetime raises \<^verbatim>\<open>TypeError\<close>, and a sort of a list that holds both kinds
  has to order such a pair. Naive datetimes are ordered by their fields, zone-aware ones
  by their point in time.
\<close>

definition mixed_zones_error :: py_exception where
  "mixed_zones_error = PyException ''can't compare offset-naive and offset-aware datetimes''"

definition py_sort :: "py_datetime list \<Rightarrow> py_exception + py_datetime list" where
  "py_sort ds =
     (if list_ex is_aware ds \<and> list_ex (\<lambda>d. \<not> is_aware d) ds then Inl mixed_zones_error
      else if list_ex is_aware ds then Inr (sort_key instant ds)
      else Inr (sort_key (\<lambda>d. dt_key (local_fields d)) ds))"

type_synonym dateparser = "string \<Rightarrow> py_exception + py_datetime option"

text \<open>
  \<^verbatim>\<open>DateParser.parse_date\<close>. The body of the \<^verbatim>\<open>try\<close> block either raises, or returns
  a datetime from inside the block, or falls through.
\<close>

definition parse_date_try :: "dateparser \<Rightarrow> string \<Rightarrow> py_exception + py_datetime option" where
  "parse_date_try dp date_string =
     (case dp date_string of
        Inl e \<Rightarrow> Inl e
      | Inr None \<Rightarrow> Inr None
      | Inr (Some parsed) \<Rightarrow>
          if 1800 \<le> year (local_fields parsed) \<and> year (local_fields parsed) \<le> 2100
          then Inr (Some parsed) else Inr None)"

definition parse_date :: "dateparser \<Rightarrow> string \<Rightarrow> py_datetime option" where
  "parse_date dp date_string =
     (case parse_date_try dp date_string of
        Inl e \<Rightarrow> None
      | Inr (Some parsed) \<Rightarrow> Some parsed
      | Inr None \<Rightarrow> None)"

text \<open>
  \<^verbatim>\<open>DateParser._extract_with_context\<close>: every match of every pattern of the context,
  in order; the stripped first group is parsed and kept when it parses. Every context
  pattern ends in its group, so a match always carries it.
\<close>

definition context_candidate ::
  "dateparser \<Rightarrow> string \<times> (nat \<times> string) list \<Rightarrow> py_datetime option" where
  "context_candidate dp mt =
     (case group (snd mt) 1 of None \<Rightarrow> None | Some t \<Rightarrow> parse_date dp (strip t))"

definition extract_with_context :: "dateparser \<Rightarrow> string \<Rightarrow> string \<Rightarrow> py_datetime list" where
  "extract_with_context dp text context =
     concat (map (\<lambda>pattern. List.map_filter (context_candidate dp) (finditer pattern None text))
                 (case CONTEXT_PATTERNS context of None \<Rightarrow> [] | Some patterns \<Rightarrow> patterns))"

text \<open>\<^verbatim>\<open>DateParser._extract_all_dates\<close>: the whole match is parsed.\<close>

definition extract_all_dates :: "dateparser \<Rightarrow> string \<Rightarrow> py_datetime list" where
  "extract_all_dates dp text =
     concat (map (\<lambda>pattern. List.map_filter (\<lambda>mt. parse_date dp (fst mt))
                                (finditer pattern None text))
                 DATE_PATTERNS)"

text \<open>
  The strings that the two functions above hand to \<^verbatim>\<open>parse_date\<close>, in the order of
  the loops.
\<close>

definition generic_candidates :: "string \<Rightarrow> string list" where
  "generic_candidates text =
     concat (map (\<lambda>pattern. map fst (finditer pattern None text)) DATE_PATTERNS)"

definition context_candidates :: "string \<Rightarrow> string \<Rightarrow> string list" where
  "context_candidates text context =
     concat (map (\<lambda>pattern. List.map_filter (\<lambda>mt. map_option strip (group (snd mt) 1))
                                (finditer pattern None text))
                 (case CONTEXT_PATTERNS context of None \<Rightarrow> [] | Some patterns \<Rightarrow> patterns))"

text \<open>
  The first step of \<^verbatim>\<open>extract_dates\<close>, guarded by
  \<^verbatim>\<open>context and context in self.CONTEXT_PATTERNS\<close>: the context patterns run for a
  context that is neither \<^verbatim>\<open>None\<close> nor empty and is a key of the table.
\<close>

definition context_dates :: "dateparser \<Rightarrow> string \<Rightarrow> string option \<Rightarrow> py_datetime list" where
  "context_dates dp text context =
     (case context of
        None \<Rightarrow> []
      | Some c \<Rightarrow>
          if c \<noteq> [] \<and> CONTEXT_PATTERNS c \<noteq> None then extract_with_context dp text c else [])"

text \<open>The list \<^verbatim>\<open>dates\<close> of \<^verbatim>\<open>extract_dates\<close> before duplicates are removed.\<close>

definition collected_dates :: "dateparser \<Rightarrow> string \<Rightarrow> string option \<Rightarrow> py_datetime list" where
  "collected_dates dp text context = context_dates dp text context @ extract_all_dates dp text"

text \<open>
  \<^verbatim>\<open>DateParser.extract_dates\<close>. \<^verbatim>\<open>list(set(dates))\<close> keeps one copy of each datetime in
  an order that the following sort makes irrelevant; the sort returns the list or raises.
\<close>

definition extract_dates ::
  "dateparser \<Rightarrow> string \<Rightarrow> string option \<Rightarrow> py_exception + py_datetime list" where
  "extract_dates dp text context = py_sort (py_unique (collected_dates dp text context))"

record date_range =
  start_date :: py_datetime
  end_date :: py_datetime
  range_text :: string

text \<open>\<^verbatim>\<open>DateParser.extract_date_ranges\<close>\<close>

definition range_candidate :: "dateparser \<Rightarrow> string \<times> (nat \<times> string) list \<Rightarrow> date_range option" where
  "range_candidate dp mt =
     (case (group (snd mt) 1, group (snd mt) 2) of
        (Some start_str, Some end_str) \<Rightarrow>
          (case (parse_date dp (strip start_str), parse_date dp (strip end_str)) of
             (Some s, Some e) \<Rightarrow> Some \<lparr>start_date = s, end_date = e, range_text = fst mt\<rparr>
           | _ \<Rightarrow> None)
      | _ \<Rightarrow> None)"

definition extract_date_ranges :: "dateparser \<Rightarrow> string \<Rightarrow> date_range list" where
  "extract_date_ranges dp text =
     List.map_filter (range_candidate dp) (finditer RANGE_PATTERN None text)"

text \<open>
  A small day-first reader of numeric dates \<^verbatim>\<open>D/M/YYYY\<close> or \<^verbatim>\<open>D-M-YYYY\<close>, used as an
  instance of the external parser wherever a closed example needs one. On such strings
  it returns what a day-first calendar reading returns, and \<^verbatim>\<open>None\<close> elsewhere.
\<close>

definition digit_value :: "char \<Rightarrow> int" where
  "digit_value c = int (code_point c) - 48"

definition number_of :: "string \<Rightarrow> int option" where
  "number_of s =
     (if s \<noteq> [] \<and> list_all is_digit s
      then Some (foldl (\<lambda>n c. 10 * n + digit_value c) 0 s) else None)"

definition numeric_dmy :: dateparser where
  "numeric_dmy s =
     (let f1 = takeWhile (\<lambda>c. \<not> is_sep c) s; r1 = drop (Suc (length f1)) s;
          f2 = takeWhile (\<lambda>c. \<not> is_sep c) r1; f3 = drop (Suc (length f2)) r1
      in case (number_of f1, number_of f2, number_of f3) of
           (Some d, Some m, Some y) \<Rightarrow>
             if length f3 = 4 \<and> 1 \<le> y \<and> 1 \<le> m \<and> m \<le> 12 \<and> 1 \<le> d \<and> d \<le> days_in_month y m
             then Inr (Some (Naive (mk_date y m d))) else Inr None
         | _ \<Rightarrow> Inr None)"

text \<open>
  The same reader, which in addition reads the phrase \<^verbatim>\<open>04/03/1998 10:30 UTC\<close> as the
  zone-aware datetime of that time at offset zero, as the library does for a phrase that
  names a zone.
\<close>

definition utc_morning :: datetime where
  "utc_morning =
     \<lparr>year = 1998, month = 3, day = 4, hour = 10, minute = 30, second = 0, microsecond = 0\<rparr>"

definition zoned_dmy :: dateparser where
  "zoned_dmy s =
     (if s = ''04/03/1998 10:30 UTC'' then Inr (Some (Aware utc_morning 0)) else numeric_dmy s)"

section \<open>The scan endpoint\<close>

text \<open>
  \<^verbatim>\<open>scan_companies\<close> of \<^verbatim>\<open>src/app.py\<close>. A request is the decoded JSON body, with the
  defaults of the source already applied.
\<close>

record scan_request =
  scan_mode :: string
  company_numbers :: "string list"
  scan_network :: bool
  network_depth :: int
  active_directors_only :: bool
  use_ai :: bool
  use_github_cache :: bool
  ch_api_key :: "string option"
  xai_api_key :: "string option"

text \<open>
  The collaborators of the endpoint are not part of the sources at hand
  (\<^verbatim>\<open>GitHubStorage\<close>, \<^verbatim>\<open>CompaniesHouseClient\<close>, \<^verbatim>\<open>BatchProcessor\<close>); they are parameters.
  Each call either raises or returns. \<open>search_filtered\<close> stands for the whole filtered
  search of lines 65 to 169, \<open>process_companies\<close> for the construction of the client and
  the processor followed by \<^verbatim>\<open>processor.process_companies\<close>, and \<open>has_results\<close> for the
  truth value of the first entry of \<^verbatim>\<open>results['results']\<close>. A cached value of
  \<open>None\<close> is a falsy \<^verbatim>\<open>cached_data\<close>.
\<close>

record ('c, 'r, 's) collaborators =
  search_filtered :: "scan_request \<Rightarrow> py_exception + string list"
  check_company_exists :: "string \<Rightarrow> string \<Rightarrow> py_exception + bool"
  get_company_data :: "string \<Rightarrow> string \<Rightarrow> py_exception + 'c option"
  process_companies :: "string list \<Rightarrow> bool \<Rightarrow> int \<Rightarrow> bool \<Rightarrow> bool \<Rightarrow> py_exception + 'r"
  has_results :: "'r \<Rightarrow> bool"
  get_processing_summary :: "'r \<Rightarrow> py_exception + 's"

text \<open>The calls made on the remote store and on the processor, in order.\<close>

datatype event =
    CheckCompanyExists string string
  | GetCompanyData string string
  | ProcessCompanies "string list"
  | PushCompanyData string string

text \<open>
  The JSON answers: status 400, status 500 with the text of the exception, the answer
  served from the cache (company number and folder), and the answer of a fresh scan
  (with company number and folder for a single company).
\<close>

datatype ('c, 's) response =
    BadRequest string
  | ServerError string
  | CachedResult 'c string string
  | FreshResult 's "(string \<times> string) option"

text \<open>\<^verbatim>\<open>str.zfill(width)\<close>: zeros are inserted after a leading sign.\<close>

definition zfill :: "nat \<Rightarrow> string \<Rightarrow> string" where
  "zfill width s =
     (if width \<le> length s then s
      else (case s of
              [] \<Rightarrow> replicate width CHR ''0''
            | c # cs \<Rightarrow>
                if c = CHR ''+'' \<or> c = CHR ''-''
                then c # replicate (width - length s) CHR ''0'' @ cs
                else replicate (width - length s) CHR ''0'' @ s))"

text \<open>\<^verbatim>\<open>not key\<close> for an optional string.\<close>

definition falsy :: "string option \<Rightarrow> bool" where
  "falsy key = (case key of None \<Rightarrow> True | Some k \<Rightarrow> k = [])"

definition exception_text :: "py_exception \<Rightarrow> string" where
  "exception_text e = (case e of PyException m \<Rightarrow> m)"

definition folder_suffix_of :: "bool \<Rightarrow> string" where
  "folder_suffix_of active = (if active then ''Only Active Directors'' else ''Directors'')"

text \<open>Lines 64 to 172: the company numbers of the scan.\<close>

definition resolve_company_numbers ::
  "('c, 'r, 's) collaborators \<Rightarrow> scan_request \<Rightarrow> py_exception + string list" where
  "resolve_company_numbers env req =
     (if scan_mode req = ''filtered'' then search_filtered env req
      else Inr (map (zfill 8) (company_numbers req)))"

text \<open>
  Lines 217 to 370: the fresh scan. The variable \<^verbatim>\<open>folder_suffix\<close> is bound only inside
  the cache branch, so it is optional here. The CSV export, the push to the store and the
  clean-up each sit in their own \<^verbatim>\<open>try\<close> block and cannot end the request; of these
  only the push of the company's JSON is recorded. Reading an unbound \<^verbatim>\<open>folder_suffix\<close>
  raises \<^verbatim>\<open>NameError\<close>: inside the push block it is swallowed, at line 368 it reaches
  the outer handler.
\<close>

definition fresh_scan ::
  "('c, 'r, 's) collaborators \<Rightarrow> scan_request \<Rightarrow> string list \<Rightarrow> string option \<Rightarrow> event list
   \<Rightarrow> ('c, 's) response \<times> event list" where
  "fresh_scan env req nums folder_suffix trace =
     (case process_companies env nums (scan_network req) (network_depth req)
             (active_directors_only req) (use_ai req) of
        Inl e \<Rightarrow> (ServerError (exception_text e), trace @ [ProcessCompanies nums])
      | Inr results \<Rightarrow>
          (let pushed =
                 (case (nums, folder_suffix) of
                    ([cn], Some f) \<Rightarrow> if has_results env results then [PushCompanyData cn f] else []
                  | _ \<Rightarrow> []);
               trace' = trace @ [ProcessCompanies nums] @ pushed
           in case get_processing_summary env results of
                Inl e \<Rightarrow> (ServerError (exception_text e), trace')
              | Inr summary \<Rightarrow>
                  (case nums of
                     [cn] \<Rightarrow>
                       (case folder_suffix of
                          None \<Rightarrow> (ServerError ''name 'folder_suffix' is not defined'', trace')
                        | Some f \<Rightarrow> (FreshResult summary (Some (cn, f)), trace'))
                   | _ \<Rightarrow> (FreshResult summary None, trace'))))"

text \<open>Lines 177 to 215: the cache lookup of a single-company scan.\<close>

definition cached_scan ::
  "('c, 'r, 's) collaborators \<Rightarrow> scan_request \<Rightarrow> string \<Rightarrow> ('c, 's) response \<times> event list" where
  "cached_scan env req company_number =
     (let folder_suffix = folder_suffix_of (active_directors_only req);
          checked = [CheckCompanyExists company_number folder_suffix];
          fetched = checked @ [GetCompanyData company_number folder_suffix]
      in case check_company_exists env company_number folder_suffix of
           Inl e \<Rightarrow> (ServerError (exception_text e), checked)
         | Inr False \<Rightarrow> fresh_scan env req [company_number] (Some folder_suffix) checked
         | Inr True \<Rightarrow>
             (case get_company_data env company_number folder_suffix of
                Inl e \<Rightarrow> (ServerError (exception_text e), fetched)
              | Inr None \<Rightarrow> fresh_scan env req [company_number] (Some folder_suffix) fetched
              | Inr (Some cached_data) \<Rightarrow>
                  (CachedResult cached_data company_number folder_suffix, fetched)))"

definition scan_companies ::
  "('c, 'r, 's) collaborators \<Rightarrow> scan_request \<Rightarrow> ('c, 's) response \<times> event list" where
  "scan_companies env req =
     (if falsy (ch_api_key req)
      then (BadRequest ''Companies House API key is required. Please provide your own API key.'', [])
      else if use_ai req \<and> falsy (xai_api_key req)
      then (BadRequest ''XAI API key is required when AI extraction is enabled. Please provide your own API key.'', [])
      else
        (case resolve_company_numbers env req of
           Inl e \<Rightarrow> (ServerError (exception_text e), [])
         | Inr nums \<Rightarrow>
             if nums = [] then (BadRequest ''No company numbers provided'', [])
             else
               (case (use_github_cache req, nums) of
                  (True, [company_number]) \<Rightarrow> cached_scan env req company_number
                | _ \<Rightarrow> fresh_scan env req nums None [])))"

text \<open>The company numbers that an event hands to a collaborator.\<close>

fun event_numbers :: "event \<Rightarrow> string list" where
  "event_numbers (CheckCompanyExists n f) = [n]"
| "event_numbers (GetCompanyData n f) = [n]"
| "event_numbers (ProcessCompanies ns) = ns"
| "event_numbers (PushCompanyData n f) = [n]"

fun is_cache_read :: "event \<Rightarrow> bool" where
  "is_cache_read (CheckCompanyExists n f) = True"
| "is_cache_read (GetCompanyData n f) = True"
| "is_cache_read _ = False"

text \<open>Three requests and three stores for closed examples.\<close>

definition single_request :: scan_request where
  "single_request =
     \<lparr>scan_mode = ''specific'', company_numbers = [''123456''], scan_network = False,
      network_depth = 1, active_directors_only = True, use_ai = False,
      use_github_cache = True, ch_api_key = Some ''key'', xai_api_key = None\<rparr>"

definition batch_request :: scan_request where
  "batch_request = single_request\<lparr>company_numbers := [''123456'', ''SC1234'']\<rparr>"


definition empty_store :: "(unit, unit, unit) collaborators" where
  "empty_store =
     \<lparr>search_filtered = (\<lambda>req. Inr []),
      check_company_exists = (\<lambda>n f. Inr False),
      get_company_data = (\<lambda>n f. Inr None),
      process_companies = (\<lambda>ns net depth active ai. Inr ()),
      has_results = (\<lambda>r. True),
      get_processing_summary = (\<lambda>r. Inr ())\<rparr>"

definition stale_store :: "(unit, unit, unit) collaborators" where
  "stale_store = empty_store\<lparr>check_company_exists := (\<lambda>n f. Inr True)\<rparr>"

definition unreachable_store :: "(unit, unit, unit) collaborators" where
  "unreachable_store =
     empty_store\<lparr>check_company_exists := (\<lambda>n f. Inl (PyException ''Connection refused''))\<rparr>"

section \<open>Auxiliary facts\<close>

lemma dt_key_eq_iff: "dt_key a = dt_key b \<longleftrightarrow> a = b"
  by (cases a, cases b) (auto simp: dt_key_def)

lemma sub_days_same_time:
  assumes "hour a = hour b" "minute a = minute b" "second a = second b"
    "microsecond a = microsecond b"
  shows "sub_days a b = toordinal a - toordinal b"
proof -
  have "microseconds_of a - microseconds_of b = (toordinal a - toordinal b) * 86400000000"
    using assms by (simp add: microseconds_of_def algebra_simps)
  then show ?thesis by (simp add: sub_days_def)
qed



lemma parse_date_in_range:
  "parse_date dp s = Some d \<Longrightarrow> 1800 \<le> year (local_fields d) \<and> year (local_fields d) \<le> 2100"
  by (auto simp: parse_date_def parse_date_try_def split: sum.splits option.splits if_splits)

lemma parse_date_out_of_range:
  "dp s = Inr (Some d) \<Longrightarrow> year (local_fields d) < 1800 \<or> 2100 < year (local_fields d) \<Longrightarrow>
     parse_date dp s = None"
  by (auto simp: parse_date_def parse_date_try_def)

lemma parse_date_raised: "dp s = Inl e \<Longrightarrow> parse_date dp s = None"
  by (simp add: parse_date_def parse_date_try_def)

lemma parse_date_accepts:
  "dp s = Inr (Some d) \<Longrightarrow> 1800 \<le> year (local_fields d) \<Longrightarrow> year (local_fields d) \<le> 2100 \<Longrightarrow>
     parse_date dp s = Some d"
  by (simp add: parse_date_def parse_date_try_def)

lemma map_filter_concat:
  "List.map_filter f (concat xss) = concat (map (List.map_filter f) xss)"
  by (induction xss) (simp_all add: List.map_filter_def)

lemma map_filter_map_fst:
  "List.map_filter (\<lambda>mt. f (fst mt)) xs = List.map_filter f (map fst xs)"
  by (induction xs) (simp_all add: List.map_filter_def)

lemma map_filter_context_candidate:
  "List.map_filter (context_candidate dp) xs
     = List.map_filter (parse_date dp)
         (List.map_filter (\<lambda>mt. map_option strip (group (snd mt) 1)) xs)"
  by (induction xs) (auto simp: List.map_filter_def context_candidate_def split: option.splits)

lemma extract_all_dates_candidates:
  "extract_all_dates dp text = List.map_filter (parse_date dp) (generic_candidates text)"
  by (simp add: extract_all_dates_def generic_candidates_def map_filter_concat
        map_filter_map_fst comp_def)

lemma extract_with_context_candidates:
  "extract_with_context dp text c = List.map_filter (parse_date dp) (context_candidates text c)"
  by (simp add: extract_with_context_def context_candidates_def map_filter_concat
        map_filter_context_candidate comp_def)

lemma map_filter_parsed:
  "d \<in> set (List.map_filter (parse_date dp) ss) \<Longrightarrow> \<exists>s. parse_date dp s = Some d"
  by (auto simp: List.map_filter_def)

lemma collected_dates_parsed:
  "d \<in> set (collected_dates dp text context) \<Longrightarrow> \<exists>s. parse_date dp s = Some d"
  by (auto simp: collected_dates_def context_dates_def extract_all_dates_candidates
        extract_with_context_candidates dest: map_filter_parsed split: option.splits if_splits)

lemma collected_dates_in_range:
  "d \<in> set (collected_dates dp text context) \<Longrightarrow>
     1800 \<le> year (local_fields d) \<and> year (local_fields d) \<le> 2100"
  using collected_dates_parsed parse_date_in_range by blast

lemma py_eq_refl: "py_eq x x"
  by (cases x) simp_all

lemma set_py_unique: "set (py_unique xs) \<subseteq> set xs"
  by (induction xs rule: py_unique.induct) auto

lemma distinct_py_unique: "distinct (py_unique xs)"
proof (induction xs rule: py_unique.induct)
  case 1
  show ?case by simp
next
  case (2 x xs)
  have "x \<notin> set (filter (\<lambda>y. \<not> py_eq x y) xs)"
    by (simp add: py_eq_refl)
  then have "x \<notin> set (py_unique (filter (\<lambda>y. \<not> py_eq x y) xs))"
    using set_py_unique by blast
  with 2 show ?case by simp
qed

lemma py_eq_naive: "\<not> is_aware x \<Longrightarrow> \<not> is_aware y \<Longrightarrow> py_eq x y \<longleftrightarrow> x = y"
  by (cases x; cases y) simp_all

lemma set_py_unique_naive:
  "\<forall>d \<in> set xs. \<not> is_aware d \<Longrightarrow> set (py_unique xs) = set xs"
proof (induction xs rule: py_unique.induct)
  case 1
  show ?case by simp
next
  case (2 x xs)
  have f: "set (filter (\<lambda>y. \<not> py_eq x y) xs) = set xs - {x}"
    using "2.prems" by (auto simp: py_eq_naive)
  have "set (py_unique (filter (\<lambda>y. \<not> py_eq x y) xs)) = set (filter (\<lambda>y. \<not> py_eq x y) xs)"
    using "2.prems" by (intro "2.IH") auto
  with f show ?case by auto
qed

lemma py_sort_set: "py_sort ds = Inr rs \<Longrightarrow> set rs = set ds"
  by (auto simp: py_sort_def split: if_splits)

lemma extract_dates_subset:
  "extract_dates dp text context = Inr ds \<Longrightarrow> set ds \<subseteq> set (collected_dates dp text context)"
  using py_sort_set set_py_unique unfolding extract_dates_def by blast

lemma extract_dates_in_range:
  "extract_dates dp text context = Inr ds \<Longrightarrow> d \<in> set ds \<Longrightarrow>
     1800 \<le> year (local_fields d) \<and> year (local_fields d) \<le> 2100"
  using extract_dates_subset collected_dates_in_range by blast

lemma extract_date_ranges_in_range:
  "r \<in> set (extract_date_ranges dp text) \<Longrightarrow>
     1800 \<le> year (local_fields (start_date r)) \<and> year (local_fields (start_date r)) \<le> 2100
     \<and> 1800 \<le> year (local_fields (end_date r)) \<and> year (local_fields (end_date r)) \<le> 2100"
  by (auto simp: extract_date_ranges_def range_candidate_def List.map_filter_def
           split: option.splits dest: parse_date_in_range)

lemma find_date_mismatches_filter:
  "find_date_mismatches e fs t =
     map (discrepancy e) (filter (\<lambda>f. \<not> compare_dates e f t) fs)"
  by (induction fs) auto

lemma find_date_mismatches_in_range:
  assumes "1800 \<le> year e \<and> year e \<le> 2100"
    and "\<forall>f \<in> set fs. 1800 \<le> year f \<and> year f \<le> 2100"
    and "m \<in> set (find_date_mismatches e fs t)"
  shows "1800 \<le> year (expected m) \<and> year (expected m) \<le> 2100
         \<and> 1800 \<le> year (found m) \<and> year (found m) \<le> 2100"
proof -
  from assms(3) obtain f where "f \<in> set fs" and "m = discrepancy e f"
    by (auto simp: find_date_mismatches_filter)
  with assms(1,2) show ?thesis by (simp add: discrepancy_def)
qed

lemma context_dates_known:
  "context_dates dp text (Some ''incorporation'') = extract_with_context dp text ''incorporation''"
  "context_dates dp text (Some ''name_change'') = extract_with_context dp text ''name_change''"
  "context_dates dp text (Some ''registration'') = extract_with_context dp text ''registration''"
  "context_dates dp text (Some ''filing'') = extract_with_context dp text ''filing''"
  by (simp_all add: context_dates_def CONTEXT_PATTERNS_def)

lemma collected_dates_of_candidates:
  "collected_dates dp text None = List.map_filter (parse_date dp) (generic_candidates text)"
  by (simp add: collected_dates_def context_dates_def extract_all_dates_candidates)

text \<open>
  Where every date that was found is naive, the sort cannot raise: \<^verbatim>\<open>extract_dates\<close>
  returns the dates of both strategies without duplicates, in strictly ascending order.
\<close>

lemma extract_dates_naive:
  assumes "\<forall>d \<in> set (collected_dates dp text context). \<not> is_aware d"
  shows "\<exists>ds. extract_dates dp text context = Inr ds \<and> distinct ds
           \<and> sorted_wrt (\<lambda>a b. dt_key (local_fields a) < dt_key (local_fields b)) ds
           \<and> set ds = set (context_dates dp text context) \<union> set (extract_all_dates dp text)"
proof -
  let ?u = "py_unique (collected_dates dp text context)"
  let ?k = "\<lambda>d. dt_key (local_fields d)"
  have s: "set ?u = set (collected_dates dp text context)"
    using assms by (rule set_py_unique_naive)
  with assms have n: "\<forall>d \<in> set ?u. \<not> is_aware d" by simp
  then have "\<not> list_ex is_aware ?u"
    by (simp add: list_ex_iff)
  then have e: "extract_dates dp text context = Inr (sort_key ?k ?u)"
    by (simp add: extract_dates_def py_sort_def)
  have inj: "inj_on ?k (set ?u)"
  proof (rule inj_onI)
    fix a b
    assume a: "a \<in> set ?u" and b: "b \<in> set ?u" and k: "?k a = ?k b"
    from n a b have "\<not> is_aware a" and "\<not> is_aware b" by auto
    with k show "a = b"
      by (cases a; cases b) (simp_all add: dt_key_eq_iff)
  qed
  have "sorted (map ?k (sort_key ?k ?u))" by simp
  moreover have "distinct (map ?k (sort_key ?k ?u))"
    using inj distinct_py_unique [of "collected_dates dp text context"]
    by (simp add: distinct_map)
  ultimately have "sorted_wrt (<) (map ?k (sort_key ?k ?u))"
    by (simp add: strict_sorted_iff)
  then have "sorted_wrt (\<lambda>a b. ?k a < ?k b) (sort_key ?k ?u)"
    by (simp add: sorted_wrt_map)
  moreover have "distinct (sort_key ?k ?u)"
    by (simp add: distinct_py_unique)
  moreover have "set (sort_key ?k ?u)
      = set (context_dates dp text context) \<union> set (extract_all_dates dp text)"
    using s by (simp add: collected_dates_def)
  ultimately show ?thesis using e by blast
qed

subsection \<open>Evaluated matches\<close>

lemma numeric_dmy_examples:
  "numeric_dmy ''04/03/1998'' = Inr (Some (Naive (mk_date 1998 3 4)))"
  "numeric_dmy ''31/12/9999'' = Inr (Some (Naive (mk_date 9999 12 31)))"
  "numeric_dmy ''05/01/2001'' = Inr (Some (Naive (mk_date 2001 1 5)))"
  "numeric_dmy ''01-01-1999'' = Inr (Some (Naive (mk_date 1999 1 1)))"
  by code_simp+

lemma incorporation_generic:
  "generic_candidates ''Date of incorporation: 04/03/1998'' = [''04/03/1998'']"
  by code_simp

lemma incorporation_context:
  "context_candidates ''Date of incorporation: 04/03/1998'' ''incorporation'' = [''04/03/1998'']"
  by code_simp

lemma far_future_generic: "generic_candidates ''31/12/9999'' = [''31/12/9999'']"
  by code_simp

lemma far_future_filed_generic: "generic_candidates ''Filed on 31/12/9999'' = [''31/12/9999'']"
  by code_simp

lemma far_future_filed_context:
  "context_candidates ''Filed on 31/12/9999'' ''filing'' = [''31/12/9999'']"
  by code_simp

lemma zoned_filing_generic:
  "generic_candidates ''Filed on: 04/03/1998 10:30 UTC'' = [''04/03/1998'']"
  by code_simp

lemma zoned_filing_context:
  "context_candidates ''Filed on: 04/03/1998 10:30 UTC'' ''filing'' = [''04/03/1998 10:30 UTC'']"
  by code_simp

lemma range_text_generic:
  "generic_candidates ''from 01-01-1999 to 05/01/2001'' = [''01-01-1999'', ''05/01/2001'']"
  by code_simp

lemma range_example:
  "finditer RANGE_PATTERN None ''from 01-01-1999 to 05/01/2001''
     = [(''from 01-01-1999 to 05/01/2001'', [(2, ''05/01/2001''), (1, ''01-01-1999'')])]"
  by code_simp

section \<open>Claims about date extraction\<close>

text \<open>
  A text whose context phrase names a time zone: for every date-phrase parser that reads
  the captured phrase as a zone-aware datetime and the bare numeric date as a naive one,
  both within the accepted years, the two strategies return one datetime of each kind and
  the sort of \<^verbatim>\<open>extract_dates\<close> raises.
\<close>

lemma extract_dates_zoned_phrase:
  assumes "dp ''04/03/1998 10:30 UTC'' = Inr (Some (Aware a off))"
    and "1800 \<le> year a" and "year a \<le> 2100"
    and "dp ''04/03/1998'' = Inr (Some (Naive n))"
    and "1800 \<le> year n" and "year n \<le> 2100"
  shows "extract_with_context dp ''Filed on: 04/03/1998 10:30 UTC'' ''filing'' = [Aware a off]
         \<and> extract_all_dates dp ''Filed on: 04/03/1998 10:30 UTC'' = [Naive n]
         \<and> extract_dates dp ''Filed on: 04/03/1998 10:30 UTC'' (Some ''filing'')
             = Inl mixed_zones_error"
proof -
  have pa: "parse_date dp ''04/03/1998 10:30 UTC'' = Some (Aware a off)"
    using assms(1-3) by (simp add: parse_date_accepts)
  have pn: "parse_date dp ''04/03/1998'' = Some (Naive n)"
    using assms(4-6) by (simp add: parse_date_accepts)
  have c: "extract_with_context dp ''Filed on: 04/03/1998 10:30 UTC'' ''filing'' = [Aware a off]"
    by (simp only: extract_with_context_candidates zoned_filing_context)
       (simp add: List.map_filter_def pa)
  have g: "extract_all_dates dp ''Filed on: 04/03/1998 10:30 UTC'' = [Naive n]"
    by (simp only: extract_all_dates_candidates zoned_filing_generic)
       (simp add: List.map_filter_def pn)
  have "collected_dates dp ''Filed on: 04/03/1998 10:30 UTC'' (Some ''filing'')
          = [Aware a off, Naive n]"
    by (simp only: collected_dates_def context_dates_known c g) simp
  then have "extract_dates dp ''Filed on: 04/03/1998 10:30 UTC'' (Some ''filing'')
             = Inl mixed_zones_error"
    by (simp add: extract_dates_def py_sort_def)
  with c g show ?thesis by blast
qed

text \<open>
  C1. \<^verbatim>\<open>extract_dates\<close> should return a sorted list of distinct datetimes for every text
  and context. It does not for the text \<^verbatim>\<open>"Filed on: 04/03/1998 10:30 UTC"\<close> with context
  \<^verbatim>\<open>"filing"\<close>: the context pattern finds the zone-aware datetime of 10:30 UTC on
  4 March 1998, the generic pattern finds the naive datetime of that day, and sorting the
  two raises instead of returning a list.
\<close>

theorem extract_dates_mixed_zones_raise:
  "extract_with_context zoned_dmy ''Filed on: 04/03/1998 10:30 UTC'' ''filing''
     = [Aware utc_morning 0]
   \<and> extract_all_dates zoned_dmy ''Filed on: 04/03/1998 10:30 UTC'' = [Naive (mk_date 1998 3 4)]
   \<and> extract_dates zoned_dmy ''Filed on: 04/03/1998 10:30 UTC'' (Some ''filing'')
       = Inl (PyException ''can't compare offset-naive and offset-aware datetimes'')"
proof -
  have "zoned_dmy ''04/03/1998 10:30 UTC'' = Inr (Some (Aware utc_morning 0))"
    by (simp add: zoned_dmy_def)
  moreover have "zoned_dmy ''04/03/1998'' = Inr (Some (Naive (mk_date 1998 3 4)))"
    by (simp add: zoned_dmy_def numeric_dmy_examples)
  moreover have "1800 \<le> year utc_morning \<and> year utc_morning \<le> 2100"
    by (simp add: utc_morning_def)
  moreover have "1800 \<le> year (mk_date 1998 3 4) \<and> year (mk_date 1998 3 4) \<le> 2100"
    by (simp add: mk_date_def)
  ultimately show ?thesis
    using extract_dates_zoned_phrase [of zoned_dmy utc_morning 0 "mk_date 1998 3 4"]
    by (simp add: mixed_zones_error_def)
qed

text \<open>
  C2. On the text \<^verbatim>\<open>"Date of incorporation: 04/03/1998"\<close> with context
  \<^verbatim>\<open>"incorporation"\<close>, \<^verbatim>\<open>extract_dates\<close> returns exactly one date, 4 March 1998, for
  every date-phrase parser that reads \<^verbatim>\<open>04/03/1998\<close> day first; the context pattern
  and the generic numeric pattern both find that date and the duplicate is removed.
\<close>

theorem extract_dates_incorporation_example:
  assumes "dp ''04/03/1998'' = Inr (Some (Naive (mk_date 1998 3 4)))"
  shows "extract_dates dp ''Date of incorporation: 04/03/1998'' (Some ''incorporation'')
           = Inr [Naive (mk_date 1998 3 4)]
         \<and> extract_with_context dp ''Date of incorporation: 04/03/1998'' ''incorporation''
           = [Naive (mk_date 1998 3 4)]
         \<and> extract_all_dates dp ''Date of incorporation: 04/03/1998''
           = [Naive (mk_date 1998 3 4)]"
proof -
  have p: "parse_date dp ''04/03/1998'' = Some (Naive (mk_date 1998 3 4))"
    using assms by (simp add: parse_date_accepts mk_date_def)
  have c: "extract_with_context dp ''Date of incorporation: 04/03/1998'' ''incorporation''
           = [Naive (mk_date 1998 3 4)]"
    by (simp only: extract_with_context_candidates incorporation_context)
       (simp add: List.map_filter_def p)
  have g: "extract_all_dates dp ''Date of incorporation: 04/03/1998''
           = [Naive (mk_date 1998 3 4)]"
    by (simp only: extract_all_dates_candidates incorporation_generic)
       (simp add: List.map_filter_def p)
  have "collected_dates dp ''Date of incorporation: 04/03/1998'' (Some ''incorporation'')
      = [Naive (mk_date 1998 3 4), Naive (mk_date 1998 3 4)]"
    by (simp only: collected_dates_def context_dates_known c g) simp
  then have "extract_dates dp ''Date of incorporation: 04/03/1998'' (Some ''incorporation'')
           = Inr [Naive (mk_date 1998 3 4)]"
    by (simp add: extract_dates_def py_sort_def)
  with c g show ?thesis by blast
qed

theorem extract_dates_incorporation_example_witness:
  "numeric_dmy ''04/03/1998'' = Inr (Some (Naive (mk_date 1998 3 4)))
   \<and> extract_dates numeric_dmy ''Date of incorporation: 04/03/1998'' (Some ''incorporation'')
       = Inr [Naive (mk_date 1998 3 4)]"
  using extract_dates_incorporation_example [of numeric_dmy] numeric_dmy_examples(1)
  by simp

text \<open>
  C3. A date that the date-phrase parser returns with a year outside 1800 to 2100 is
  dropped by \<^verbatim>\<open>parse_date\<close>, which returns \<^verbatim>\<open>None\<close>; no date that \<^verbatim>\<open>extract_dates\<close>
  collects or returns has such a year; and when the parser reads \<^verbatim>\<open>31/12/9999\<close> as
  31 December 9999, a text that consists of that span, or that states it after
  \<^verbatim>\<open>Filed on\<close>, yields no date.
\<close>

theorem out_of_range_dates_dropped:
  "(dp s = Inr (Some d) \<and> (year (local_fields d) < 1800 \<or> 2100 < year (local_fields d))
      \<longrightarrow> parse_date dp s = None)
   \<and> (\<forall>x \<in> set (collected_dates dp text context).
         1800 \<le> year (local_fields x) \<and> year (local_fields x) \<le> 2100)
   \<and> (extract_dates dp text context = Inr ds \<longrightarrow>
        (\<forall>x \<in> set ds. 1800 \<le> year (local_fields x) \<and> year (local_fields x) \<le> 2100))
   \<and> (dp ''31/12/9999'' = Inr (Some (Naive (mk_date 9999 12 31))) \<longrightarrow>
        extract_dates dp ''31/12/9999'' None = Inr []
        \<and> extract_dates dp ''Filed on 31/12/9999'' (Some ''filing'') = Inr [])"
proof -
  have a: "dp s = Inr (Some d) \<and> (year (local_fields d) < 1800 \<or> 2100 < year (local_fields d))
      \<longrightarrow> parse_date dp s = None"
    using parse_date_out_of_range by blast
  have b: "\<forall>x \<in> set (collected_dates dp text context).
         1800 \<le> year (local_fields x) \<and> year (local_fields x) \<le> 2100"
    using collected_dates_in_range by blast
  have b': "extract_dates dp text context = Inr ds \<longrightarrow>
        (\<forall>x \<in> set ds. 1800 \<le> year (local_fields x) \<and> year (local_fields x) \<le> 2100)"
    using extract_dates_in_range by blast
  have c: "extract_dates dp ''31/12/9999'' None = Inr []
        \<and> extract_dates dp ''Filed on 31/12/9999'' (Some ''filing'') = Inr []"
    if h: "dp ''31/12/9999'' = Inr (Some (Naive (mk_date 9999 12 31)))"
  proof -
    have p: "parse_date dp ''31/12/9999'' = None"
      using h by (rule parse_date_out_of_range) (simp add: mk_date_def)
    have "collected_dates dp ''31/12/9999'' None = []"
      by (simp add: collected_dates_of_candidates far_future_generic List.map_filter_def p)
    then have "extract_dates dp ''31/12/9999'' None = Inr []"
      by (simp add: extract_dates_def py_sort_def)
    moreover have x: "extract_with_context dp ''Filed on 31/12/9999'' ''filing'' = []"
      by (simp only: extract_with_context_candidates far_future_filed_context)
         (simp add: List.map_filter_def p)
    moreover have y: "extract_all_dates dp ''Filed on 31/12/9999'' = []"
      by (simp only: extract_all_dates_candidates far_future_filed_generic)
         (simp add: List.map_filter_def p)
    moreover have "collected_dates dp ''Filed on 31/12/9999'' (Some ''filing'') = []"
      by (simp only: collected_dates_def context_dates_known x y) simp
    ultimately show ?thesis
      by (simp add: extract_dates_def py_sort_def)
  qed
  from a b b' c show ?thesis by blast
qed

theorem out_of_range_dates_dropped_witness:
  "numeric_dmy ''31/12/9999'' = Inr (Some (Naive (mk_date 9999 12 31)))
   \<and> 2100 < year (local_fields (Naive (mk_date 9999 12 31)))
   \<and> parse_date numeric_dmy ''31/12/9999'' = None
   \<and> extract_dates numeric_dmy ''31/12/9999'' None = Inr []
   \<and> extract_dates numeric_dmy ''Filed on 31/12/9999'' (Some ''filing'') = Inr []
   \<and> extract_dates numeric_dmy ''Date of incorporation: 04/03/1998'' (Some ''incorporation'')
       = Inr [Naive (mk_date 1998 3 4)]
   \<and> 1800 \<le> year (local_fields (Naive (mk_date 1998 3 4)))
   \<and> year (local_fields (Naive (mk_date 1998 3 4))) \<le> 2100"
proof -
  have y: "2100 < year (local_fields (Naive (mk_date 9999 12 31)))"
    by (simp add: mk_date_def)
  have p: "parse_date numeric_dmy ''04/03/1998'' = Some (Naive (mk_date 1998 3 4))"
    by (simp add: parse_date_accepts numeric_dmy_examples mk_date_def)
  have c: "extract_with_context numeric_dmy ''Date of incorporation: 04/03/1998''
             ''incorporation'' = [Naive (mk_date 1998 3 4)]"
    by (simp only: extract_with_context_candidates incorporation_context)
       (simp add: List.map_filter_def p)
  have g: "extract_all_dates numeric_dmy ''Date of incorporation: 04/03/1998''
             = [Naive (mk_date 1998 3 4)]"
    by (simp only: extract_all_dates_candidates incorporation_generic)
       (simp add: List.map_filter_def p)
  have "collected_dates numeric_dmy ''Date of incorporation: 04/03/1998''
          (Some ''incorporation'') = [Naive (mk_date 1998 3 4), Naive (mk_date 1998 3 4)]"
    by (simp only: collected_dates_def context_dates_known c g) simp
  then have m: "extract_dates numeric_dmy ''Date of incorporation: 04/03/1998''
      (Some ''incorporation'') = Inr [Naive (mk_date 1998 3 4)]"
    by (simp add: extract_dates_def py_sort_def)
  have "1800 \<le> year (local_fields (Naive (mk_date 1998 3 4)))
   \<and> year (local_fields (Naive (mk_date 1998 3 4))) \<le> 2100"
    using out_of_range_dates_dropped
        [of numeric_dmy "''31/12/9999''" "Naive (mk_date 9999 12 31)"
            "''Date of incorporation: 04/03/1998''" "Some ''incorporation''"
            "[Naive (mk_date 1998 3 4)]"] m
    by simp
  moreover have "parse_date numeric_dmy ''31/12/9999'' = None
   \<and> extract_dates numeric_dmy ''31/12/9999'' None = Inr []
   \<and> extract_dates numeric_dmy ''Filed on 31/12/9999'' (Some ''filing'') = Inr []"
    using out_of_range_dates_dropped
        [of numeric_dmy "''31/12/9999''" "Naive (mk_date 9999 12 31)"]
      numeric_dmy_examples(2) y
    by blast
  ultimately show ?thesis
    using numeric_dmy_examples(2) y m by blast
qed

text \<open>
  C10. \<^verbatim>\<open>parse_date\<close> returns \<^verbatim>\<open>None\<close> or a datetime for every string, also when the
  date-phrase parser raises, and a datetime it returns has its year between 1800 and
  2100. Hence every date that \<^verbatim>\<open>extract_dates\<close> collects or returns and both ends of
  every entry of \<^verbatim>\<open>extract_date_ranges\<close> lie in that range, and so does every date of a
  mismatch reported by \<^verbatim>\<open>find_date_mismatches\<close> for a parsed expected date and
  extracted dates.
\<close>

theorem parse_date_total_in_range:
  "(parse_date dp s = None
      \<or> (\<exists>d. parse_date dp s = Some d
            \<and> 1800 \<le> year (local_fields d) \<and> year (local_fields d) \<le> 2100))
   \<and> (dp s = Inl e \<longrightarrow> parse_date dp s = None)
   \<and> (\<forall>d \<in> set (collected_dates dp text context).
         1800 \<le> year (local_fields d) \<and> year (local_fields d) \<le> 2100)
   \<and> (extract_dates dp text context = Inr ds \<longrightarrow>
        (\<forall>d \<in> set ds. 1800 \<le> year (local_fields d) \<and> year (local_fields d) \<le> 2100))
   \<and> (\<forall>r \<in> set (extract_date_ranges dp text).
         1800 \<le> year (local_fields (start_date r)) \<and> year (local_fields (start_date r)) \<le> 2100
         \<and> 1800 \<le> year (local_fields (end_date r)) \<and> year (local_fields (end_date r)) \<le> 2100)
   \<and> (parse_date dp s = Some x \<longrightarrow>
        (\<forall>m \<in> set (find_date_mismatches (local_fields x)
                      (map local_fields (collected_dates dp text context)) tolerance).
           1800 \<le> year (expected m) \<and> year (expected m) \<le> 2100
           \<and> 1800 \<le> year (found m) \<and> year (found m) \<le> 2100))
   \<and> (parse_date dp s = Some x \<and> extract_dates dp text context = Inr ds \<longrightarrow>
        (\<forall>m \<in> set (find_date_mismatches (local_fields x) (map local_fields ds) tolerance).
           1800 \<le> year (expected m) \<and> year (expected m) \<le> 2100
           \<and> 1800 \<le> year (found m) \<and> year (found m) \<le> 2100))"
proof -
  have a: "parse_date dp s = None
      \<or> (\<exists>d. parse_date dp s = Some d
            \<and> 1800 \<le> year (local_fields d) \<and> year (local_fields d) \<le> 2100)"
    using parse_date_in_range by (cases "parse_date dp s") auto
  have b: "dp s = Inl e \<longrightarrow> parse_date dp s = None"
    using parse_date_raised by blast
  have c: "\<forall>d \<in> set (collected_dates dp text context).
         1800 \<le> year (local_fields d) \<and> year (local_fields d) \<le> 2100"
    using collected_dates_in_range by blast
  have c': "extract_dates dp text context = Inr ds \<longrightarrow>
        (\<forall>d \<in> set ds. 1800 \<le> year (local_fields d) \<and> year (local_fields d) \<le> 2100)"
    using extract_dates_in_range by blast
  have d: "\<forall>r \<in> set (extract_date_ranges dp text).
         1800 \<le> year (local_fields (start_date r)) \<and> year (local_fields (start_date r)) \<le> 2100
         \<and> 1800 \<le> year (local_fields (end_date r)) \<and> year (local_fields (end_date r)) \<le> 2100"
    using extract_date_ranges_in_range by blast
  have e: "\<forall>m \<in> set (find_date_mismatches (local_fields x)
                      (map local_fields (collected_dates dp text context)) tolerance).
           1800 \<le> year (expected m) \<and> year (expected m) \<le> 2100
           \<and> 1800 \<le> year (found m) \<and> year (found m) \<le> 2100"
    if h: "parse_date dp s = Some x"
  proof
    fix m
    assume m: "m \<in> set (find_date_mismatches (local_fields x)
                      (map local_fields (collected_dates dp text context)) tolerance)"
    from h have "1800 \<le> year (local_fields x) \<and> year (local_fields x) \<le> 2100"
      by (rule parse_date_in_range)
    moreover from c have "\<forall>f \<in> set (map local_fields (collected_dates dp text context)).
        1800 \<le> year f \<and> year f \<le> 2100"
      by auto
    ultimately show "1800 \<le> year (expected m) \<and> year (expected m) \<le> 2100
           \<and> 1800 \<le> year (found m) \<and> year (found m) \<le> 2100"
      using m by (rule find_date_mismatches_in_range)
  qed
  have e': "\<forall>m \<in> set (find_date_mismatches (local_fields x) (map local_fields ds) tolerance).
           1800 \<le> year (expected m) \<and> year (expected m) \<le> 2100
           \<and> 1800 \<le> year (found m) \<and> year (found m) \<le> 2100"
    if h: "parse_date dp s = Some x" and r: "extract_dates dp text context = Inr ds"
  proof
    fix m
    assume m: "m \<in> set (find_date_mismatches (local_fields x) (map local_fields ds) tolerance)"
    from h have "1800 \<le> year (local_fields x) \<and> year (local_fields x) \<le> 2100"
      by (rule parse_date_in_range)
    moreover from c' r have "\<forall>f \<in> set (map local_fields ds). 1800 \<le> year f \<and> year f \<le> 2100"
      by auto
    ultimately show "1800 \<le> year (expected m) \<and> year (expected m) \<le> 2100
           \<and> 1800 \<le> year (found m) \<and> year (found m) \<le> 2100"
      using m by (rule find_date_mismatches_in_range)
  qed
  from a b c c' d e e' show ?thesis by blast
qed

theorem parse_date_total_in_range_witness:
  "parse_date (\<lambda>s. Inl (PyException ''unreadable'')) ''04/03/1998'' = None
   \<and> parse_date numeric_dmy ''04/03/1998'' = Some (Naive (mk_date 1998 3 4))
   \<and> extract_dates numeric_dmy ''from 01-01-1999 to 05/01/2001'' None
       = Inr [Naive (mk_date 1999 1 1), Naive (mk_date 2001 1 5)]
   \<and> extract_date_ranges numeric_dmy ''from 01-01-1999 to 05/01/2001''
       = [\<lparr>start_date = Naive (mk_date 1999 1 1), end_date = Naive (mk_date 2001 1 5),
           range_text = ''from 01-01-1999 to 05/01/2001''\<rparr>]
   \<and> map found (find_date_mismatches (mk_date 1998 3 4)
        [mk_date 1999 1 1, mk_date 2001 1 5] 0)
       = [mk_date 1999 1 1, mk_date 2001 1 5]
   \<and> list_all (\<lambda>d. 1800 \<le> year (local_fields d) \<and> year (local_fields d) \<le> 2100)
       [Naive (mk_date 1999 1 1), Naive (mk_date 2001 1 5)]
   \<and> list_all (\<lambda>m. 1800 \<le> year (found m) \<and> year (found m) \<le> 2100)
       (find_date_mismatches (mk_date 1998 3 4) [mk_date 1999 1 1, mk_date 2001 1 5] 0)"
proof -
  have r: "parse_date (\<lambda>s. Inl (PyException ''unreadable'')) ''04/03/1998'' = None"
    using parse_date_total_in_range
      [of "\<lambda>s. Inl (PyException ''unreadable'')" "''04/03/1998''" "PyException ''unreadable''"]
    by simp
  have p: "parse_date numeric_dmy ''04/03/1998'' = Some (Naive (mk_date 1998 3 4))"
    "parse_date numeric_dmy ''05/01/2001'' = Some (Naive (mk_date 2001 1 5))"
    "parse_date numeric_dmy ''01-01-1999'' = Some (Naive (mk_date 1999 1 1))"
    by (simp_all add: parse_date_accepts numeric_dmy_examples mk_date_def)
  have ne: "mk_date 1999 1 1 \<noteq> mk_date 2001 1 5"
    by (simp add: mk_date_def)
  have le: "dt_key (mk_date 1999 1 1) \<le> dt_key (mk_date 2001 1 5)"
    by (simp add: dt_key_def mk_date_def)
  have "collected_dates numeric_dmy ''from 01-01-1999 to 05/01/2001'' None
       = [Naive (mk_date 1999 1 1), Naive (mk_date 2001 1 5)]"
    by (simp add: collected_dates_of_candidates range_text_generic List.map_filter_def p)
  then have x: "extract_dates numeric_dmy ''from 01-01-1999 to 05/01/2001'' None
       = Inr [Naive (mk_date 1999 1 1), Naive (mk_date 2001 1 5)]"
    using ne le by (simp add: extract_dates_def py_sort_def)
  have s: "strip ''01-01-1999'' = ''01-01-1999''" "strip ''05/01/2001'' = ''05/01/2001''"
    by code_simp+
  have er: "extract_date_ranges numeric_dmy ''from 01-01-1999 to 05/01/2001''
       = [\<lparr>start_date = Naive (mk_date 1999 1 1), end_date = Naive (mk_date 2001 1 5),
           range_text = ''from 01-01-1999 to 05/01/2001''\<rparr>]"
    by (simp add: extract_date_ranges_def range_example List.map_filter_def range_candidate_def
          group_def s p)
  have nm: "\<not> compare_dates (mk_date 1998 3 4) (mk_date 1999 1 1) 0"
    "\<not> compare_dates (mk_date 1998 3 4) (mk_date 2001 1 5) 0"
    by (simp_all add: compare_dates_def date_of_def mk_date_def)
  have fm: "map found (find_date_mismatches (mk_date 1998 3 4)
        [mk_date 1999 1 1, mk_date 2001 1 5] 0)
       = [mk_date 1999 1 1, mk_date 2001 1 5]"
    by (simp add: nm discrepancy_def)
  note t = parse_date_total_in_range
      [of numeric_dmy "''04/03/1998''" _ "''from 01-01-1999 to 05/01/2001''" None
          "[Naive (mk_date 1999 1 1), Naive (mk_date 2001 1 5)]" "Naive (mk_date 1998 3 4)" 0]
  have "\<forall>d \<in> set [Naive (mk_date 1999 1 1), Naive (mk_date 2001 1 5)].
          1800 \<le> year (local_fields d) \<and> year (local_fields d) \<le> 2100"
    using t x by blast
  then have la: "list_all (\<lambda>d. 1800 \<le> year (local_fields d) \<and> year (local_fields d) \<le> 2100)
       [Naive (mk_date 1999 1 1), Naive (mk_date 2001 1 5)]"
    unfolding list_all_iff .
  have "\<forall>m \<in> set (find_date_mismatches (local_fields (Naive (mk_date 1998 3 4)))
            (map local_fields [Naive (mk_date 1999 1 1), Naive (mk_date 2001 1 5)]) 0).
          1800 \<le> year (found m) \<and> year (found m) \<le> 2100"
    using t x p(1) by blast
  then have lm: "list_all (\<lambda>m. 1800 \<le> year (found m) \<and> year (found m) \<le> 2100)
       (find_date_mismatches (mk_date 1998 3 4) [mk_date 1999 1 1, mk_date 2001 1 5] 0)"
    unfolding list_all_iff by simp
  from r p(1) x er fm la lm show ?thesis by blast
qed

section \<open>Claims about comparison, mismatches and sequences\<close>

text \<open>
  What holds of \<^verbatim>\<open>compare_dates\<close>: with tolerance 0 it is equality of the calendar days,
  hence reflexive and symmetric; with another tolerance it bounds the absolute value of
  \<^verbatim>\<open>(date1 - date2).days\<close>, which for two datetimes with the same time of day is the
  difference of their calendar days.
\<close>

lemma compare_dates_exact_day:
  "(compare_dates a b 0 \<longleftrightarrow> date_of a = date_of b)
   \<and> compare_dates d d 0
   \<and> (compare_dates a b 0 \<longleftrightarrow> compare_dates b a 0)"
  by (auto simp: compare_dates_def)

lemma compare_dates_floor:
  "t \<noteq> 0 \<Longrightarrow> compare_dates a b t \<longleftrightarrow> \<bar>sub_days a b\<bar> \<le> t"
  by (simp add: compare_dates_def)

lemma compare_dates_same_time:
  assumes "t \<noteq> 0" "hour a = hour b" "minute a = minute b" "second a = second b"
    "microsecond a = microsecond b"
  shows "compare_dates a b t \<longleftrightarrow> \<bar>toordinal a - toordinal b\<bar> \<le> t"
  using assms by (simp add: compare_dates_def sub_days_same_time)

text \<open>
  C4. For a tolerance \<open>t > 0\<close>, \<^verbatim>\<open>compare_dates\<close> should hold exactly when the absolute
  day difference between the two datetimes is at most \<open>t\<close>, which does not depend on
  their order. It does depend on it: \<^verbatim>\<open>(date1 - date2).days\<close> is rounded down before the
  absolute value is taken, so for midnight of 1 January 2020 and noon of 2 January 2020,
  one and a half days apart, the difference is \<open>-2\<close> one way and \<open>1\<close> the other way, and
  with tolerance 1 the comparison fails one way and holds the other way.
\<close>

theorem compare_dates_order_dependent:
  "sub_days (mk_date 2020 1 1) ((mk_date 2020 1 2)\<lparr>hour := 12\<rparr>) = - 2
   \<and> sub_days ((mk_date 2020 1 2)\<lparr>hour := 12\<rparr>) (mk_date 2020 1 1) = 1
   \<and> \<not> compare_dates (mk_date 2020 1 1) ((mk_date 2020 1 2)\<lparr>hour := 12\<rparr>) 1
   \<and> compare_dates ((mk_date 2020 1 2)\<lparr>hour := 12\<rparr>) (mk_date 2020 1 1) 1"
proof -
  have a: "sub_days (mk_date 2020 1 1) ((mk_date 2020 1 2)\<lparr>hour := 12\<rparr>) = - 2"
    by (simp add: sub_days_def microseconds_of_def toordinal_def mk_date_def
          days_before_year_def days_before_month_def is_leap_def)
  have b: "sub_days ((mk_date 2020 1 2)\<lparr>hour := 12\<rparr>) (mk_date 2020 1 1) = 1"
    by (simp add: sub_days_def microseconds_of_def toordinal_def mk_date_def
          days_before_year_def days_before_month_def is_leap_def)
  show ?thesis
    by (simp add: compare_dates_floor a b)
qed





section \<open>Claims about the scan endpoint\<close>




lemma fresh_scan_events:
  "ev \<in> set (snd (fresh_scan env req nums fo tr)) \<Longrightarrow>
     ev \<in> set tr \<or> (\<not> is_cache_read ev \<and> set (event_numbers ev) \<subseteq> set nums)"
  by (auto simp: fresh_scan_def Let_def split: sum.splits list.splits option.splits if_splits)

lemma fresh_scan_processes:
  "ProcessCompanies nums \<in> set (snd (fresh_scan env req nums fo tr))"
  by (auto simp: fresh_scan_def Let_def split: sum.splits list.splits option.splits if_splits)

lemma fresh_scan_completes:
  assumes "process_companies env nums (scan_network req) (network_depth req)
             (active_directors_only req) (use_ai req) = Inr results"
    and "get_processing_summary env results = Inr summary"
  shows "fst (fresh_scan env req [cn] (Some f) tr) = FreshResult summary (Some (cn, f))
           \<or> nums \<noteq> [cn]"
  using assms by (auto simp: fresh_scan_def Let_def)










text \<open>
  C8. When the scan is for more than one company, no call is made on the remote cache,
  whether or not cache use is enabled, and, once the request has passed the checks of
  its API keys, the processor is called with all the companies of the scan.
\<close>

theorem cache_skipped_for_batches:
  assumes "resolve_company_numbers env req = Inr nums" and "1 < length nums"
  shows "(\<forall>ev \<in> set (snd (scan_companies env req)). \<not> is_cache_read ev)
     \<and> (\<not> falsy (ch_api_key req) \<and> (use_ai req \<longrightarrow> \<not> falsy (xai_api_key req))
          \<longrightarrow> scan_companies env req = fresh_scan env req nums None []
              \<and> ProcessCompanies nums \<in> set (snd (scan_companies env req)))"
proof -
  from assms(2) have ne: "nums \<noteq> []" by auto
  from assms(2) have two: "\<And>x. nums \<noteq> [x]" by auto
  have sc: "scan_companies env req = fresh_scan env req nums None []"
    if "\<not> falsy (ch_api_key req)" and "use_ai req \<longrightarrow> \<not> falsy (xai_api_key req)"
    using that assms(1) ne two
    by (auto simp: scan_companies_def split: list.splits bool.splits)
  have other: "snd (scan_companies env req) = []"
    if "falsy (ch_api_key req) \<or> (use_ai req \<and> falsy (xai_api_key req))"
    using that by (auto simp: scan_companies_def)
  have "\<not> is_cache_read ev" if "ev \<in> set (snd (scan_companies env req))" for ev
  proof (cases "falsy (ch_api_key req) \<or> (use_ai req \<and> falsy (xai_api_key req))")
    case True
    with other that show ?thesis by simp
  next
    case False
    with sc that have "ev \<in> set (snd (fresh_scan env req nums None []))" by auto
    then show ?thesis by (auto dest: fresh_scan_events)
  qed
  moreover have "ProcessCompanies nums \<in> set (snd (scan_companies env req))"
    if "\<not> falsy (ch_api_key req)" and "use_ai req \<longrightarrow> \<not> falsy (xai_api_key req)"
    using sc [OF that] fresh_scan_processes [of nums env req None "[]"] by simp
  ultimately show ?thesis using sc by blast
qed

lemma batch_request_stale_store:
  "scan_companies stale_store batch_request
     = (FreshResult () None, [ProcessCompanies [''00123456'', ''00SC1234'']])"
  by code_simp

theorem cache_skipped_for_batches_witness:
  "resolve_company_numbers stale_store batch_request = Inr [''00123456'', ''00SC1234'']
   \<and> 1 < length [''00123456'', ''00SC1234'']
   \<and> use_github_cache batch_request
   \<and> check_company_exists stale_store ''00123456'' ''Only Active Directors'' = Inr True
   \<and> \<not> falsy (ch_api_key batch_request) \<and> \<not> use_ai batch_request
   \<and> filter is_cache_read (snd (scan_companies stale_store batch_request)) = []
   \<and> ProcessCompanies [''00123456'', ''00SC1234'']
       \<in> set (snd (scan_companies stale_store batch_request))"
proof -
  have r: "resolve_company_numbers stale_store batch_request = Inr [''00123456'', ''00SC1234'']"
    by code_simp
  have l: "1 < length [''00123456'', ''00SC1234'']"
    by simp
  have k: "use_github_cache batch_request" "\<not> falsy (ch_api_key batch_request)"
    "\<not> use_ai batch_request"
    "check_company_exists stale_store ''00123456'' ''Only Active Directors'' = Inr True"
    by (simp_all add: batch_request_def single_request_def falsy_def stale_store_def
          empty_store_def)
  show ?thesis
    using cache_skipped_for_batches [OF r l] r l k
    unfolding filter_empty_conv by blast
qed

text \<open>
  A lookup that reports nothing, because the existence check is false or because the
  stored data is empty, is a cache miss: the scan goes on to the fresh scan.
\<close>

lemma cache_miss_proceeds:
  assumes "check_company_exists env cn (folder_suffix_of (active_directors_only req)) = Inr False
           \<or> (check_company_exists env cn (folder_suffix_of (active_directors_only req)) = Inr True
              \<and> get_company_data env cn (folder_suffix_of (active_directors_only req)) = Inr None)"
  shows "fst (cached_scan env req cn)
           = fst (fresh_scan env req [cn] (Some (folder_suffix_of (active_directors_only req))) [])
         \<and> ProcessCompanies [cn] \<in> set (snd (cached_scan env req cn))"
  using assms fresh_scan_processes [of "[cn]" env req]
  by (auto simp: cached_scan_def Let_def fresh_scan_def split: sum.splits)

text \<open>
  C9. In a single-company scan with caching enabled, a failed cache read should count
  as a cache miss and the scan should go on. It does not when the read raises: on a store
  whose existence check raises, the endpoint answers with status 500 and the text of the
  exception, after the one call on the store and without any call of the processor.
\<close>

theorem cache_failure_aborts_scan:
  "scan_companies unreachable_store single_request
     = (ServerError ''Connection refused'',
        [CheckCompanyExists ''00123456'' ''Only Active Directors''])"
  by code_simp

end
